theory Spec2Isabelle
  imports Complex_Main
begin

section \<open>Serve microbenchmarks: metric records and the benchmark driver\<close>

text \<open>
  A shallow embedding of \<^verbatim>\<open>release/serve_tests/workloads/microbenchmarks.py\<close>:
  the two functions that turn measurements into performance metric records, the
  coroutine \<^verbatim>\<open>_main\<close> that runs the selected benchmarks and collects their
  records, and the command line entry point \<^verbatim>\<open>main\<close> with its flag defaults.
\<close>

subsection \<open>Values\<close>

text \<open>
  A Python float is a finite number, an infinity or NaN. Rounding is not modelled: a
  finite float is a real number.
\<close>

datatype pyfloat = Finite real | PosInf | NegInf | NaN

text \<open>
  The values stored in a metric dictionary are strings and floats. A dictionary is the
  list of its items in insertion order, which is the order \<^verbatim>\<open>json.dumps\<close> prints.
\<close>

datatype pyval = Str string | Float pyfloat

type_synonym pydict = "(string \<times> pyval) list"

text \<open>
  The exceptions of the model: \<open>ValueError\<close> is what the quantile method raises for a
  probability outside the unit interval; \<open>InvalidArgument\<close> and \<open>RequestFailed\<close> are
  the two failures of a sampler.
\<close>

datatype error = ValueError | InvalidArgument | RequestFailed

text \<open>An exception ends the computation: the rest runs only on a normal result.\<close>

definition and_then :: "error + 'a \<Rightarrow> ('a \<Rightarrow> error + 'b) \<Rightarrow> error + 'b" where
  "and_then m f = (case m of Inl e \<Rightarrow> Inl e | Inr x \<Rightarrow> f x)"

subsection \<open>Throughput records\<close>

text \<open>
  \<^verbatim>\<open>convert_throughput_to_perf_metrics(name, mean, std)\<close>, lines 64 to 78. Its
  arguments are a string and two floats, all immutable; it builds two dictionaries.
\<close>

definition convert_throughput_to_perf_metrics ::
  "string \<Rightarrow> pyfloat \<Rightarrow> pyfloat \<Rightarrow> pydict list" where
  "convert_throughput_to_perf_metrics name mean std =
     [ [ (''perf_metric_name'', Str (name @ ''_avg_rps'')),
         (''perf_metric_value'', Float mean),
         (''perf_metric_type'', Str ''THROUGHPUT'') ],
       [ (''perf_metric_name'', Str (name @ ''_throughput_std'')),
         (''perf_metric_value'', Float std),
         (''perf_metric_type'', Str ''THROUGHPUT'') ] ]"

subsection \<open>Quantiles of a sample series\<close>

text \<open>
  Modelled from the spec: \<^verbatim>\<open>latencies.quantile(q)\<close> is the method
  \<^verbatim>\<open>Series.quantile\<close> of the pandas library, whose code is not under src/. The
  spec (4.5) gives its value as the quantile computed by linear interpolation between
  the two nearest ranks of the sorted sample sequence, and (3) says that the
  computation sorts a copy, so the series itself is handed back as it was. The rank of
  the \<open>q\<close>-quantile among \<open>n\<close> sorted samples, counted from 0, is \<open>q * (n - 1)\<close>; the two
  nearest ranks are its floor and its ceiling. The library raises \<open>ValueError\<close> for a
  \<open>q\<close> outside \<open>[0, 1]\<close> and yields NaN for a series with no sample.

  A series is the list of its samples in insertion order. The method returns its value
  together with the series after the call.
\<close>

definition interpolate :: "real list \<Rightarrow> real \<Rightarrow> real" where
  "interpolate sorted_copy h =
     (let lo = nat \<lfloor>h\<rfloor>; hi = nat \<lceil>h\<rceil>
      in sorted_copy ! lo + (h - real lo) * (sorted_copy ! hi - sorted_copy ! lo))"

definition quantile :: "real list \<Rightarrow> real \<Rightarrow> error + (pyfloat \<times> real list)" where
  "quantile samples q =
     (if q < 0 \<or> 1 < q then Inl ValueError
      else if samples = [] then Inr (NaN, samples)
      else
        let sorted_copy = sort samples;
            h = q * real (length sorted_copy - 1)
        in Inr (Finite (interpolate sorted_copy h), samples))"

subsection \<open>Latency records\<close>

text \<open>
  \<^verbatim>\<open>convert_latencies_to_perf_metrics(name, latencies)\<close>, lines 81 to 103. The
  list display evaluates the four quantile calls in order, on the same series object;
  the model threads the series through the calls and returns it with the records.
\<close>

definition convert_latencies_to_perf_metrics ::
  "string \<Rightarrow> real list \<Rightarrow> error + (pydict list \<times> real list)" where
  "convert_latencies_to_perf_metrics name latencies =
     and_then (quantile latencies 0.5) (\<lambda>(p50, l1).
     and_then (quantile l1 0.9) (\<lambda>(p90, l2).
     and_then (quantile l2 0.95) (\<lambda>(p95, l3).
     and_then (quantile l3 0.99) (\<lambda>(p99, l4).
     Inr ([ [ (''perf_metric_name'', Str (name @ ''_p50_latency'')),
              (''perf_metric_value'', Float p50),
              (''perf_metric_type'', Str ''LATENCY'') ],
            [ (''perf_metric_name'', Str (name @ ''_p90_latency'')),
              (''perf_metric_value'', Float p90),
              (''perf_metric_type'', Str ''LATENCY'') ],
            [ (''perf_metric_name'', Str (name @ ''_p95_latency'')),
              (''perf_metric_value'', Float p95),
              (''perf_metric_type'', Str ''LATENCY'') ],
            [ (''perf_metric_name'', Str (name @ ''_p99_latency'')),
              (''perf_metric_value'', Float p99),
              (''perf_metric_type'', Str ''LATENCY'') ] ],
          l4)))))"

subsection \<open>The samplers and the benchmarks of a run\<close>

text \<open>
  The driver measures three transports. A benchmark is one \<^verbatim>\<open>await\<close> of a sampler
  in \<^verbatim>\<open>_main\<close>: a latency benchmark of a transport with a payload of a given size in
  bytes (\<open>None\<close>: the request carries no payload), or a throughput benchmark of a
  transport against a deployment with a given \<^verbatim>\<open>max_ongoing_requests\<close> option
  (\<open>None\<close>: the option is left at its default).
\<close>

datatype transport = HTTP | GRPC | HANDLE

datatype bench =
    Latency transport "nat option"
  | Throughput transport "nat option"

text \<open>The constants of lines 43 to 49.\<close>

definition NUM_REQUESTS :: nat where
  "NUM_REQUESTS = 500"

definition BATCH_SIZE :: nat where
  "BATCH_SIZE = 100"

definition NUM_TRIALS :: nat where
  "NUM_TRIALS = 50"

definition TRIAL_RUNTIME_S :: nat where
  "TRIAL_RUNTIME_S = 5"

text \<open>
  The samplers \<^verbatim>\<open>run_latency_benchmark\<close> and \<^verbatim>\<open>run_throughput_benchmark\<close> are
  imported from \<^verbatim>\<open>ray.serve._private.benchmarks.common\<close>, and for the handle
  transport they run remotely inside the \<^verbatim>\<open>Benchmarker\<close> deployment. Their results
  are measurements, so they are parameters of the model: for each benchmark the
  environment gives what the sampler returns (a series of latency samples, or the mean
  and the standard deviation of the trial throughputs) or the exception it raises.
  The driver reaches every benchmark at most once in a run, so a function of the
  benchmark covers every run. The samplers receive the number of requests, or the
  batch size, the number of trials and the trial runtime.
\<close>

record env =
  run_latency_benchmark :: "bench \<Rightarrow> nat \<Rightarrow> error + real list"
  run_throughput_benchmark :: "bench \<Rightarrow> nat \<Rightarrow> nat \<Rightarrow> nat \<Rightarrow> error + (pyfloat \<times> pyfloat)"

subsection \<open>The driver\<close>

text \<open>
  The state of \<^verbatim>\<open>_main\<close>: the list \<^verbatim>\<open>perf_metrics\<close> it extends, and the
  benchmarks it has run so far, in the order it ran them.
\<close>

record driver =
  perf_metrics :: "pydict list"
  runs :: "bench list"

text \<open>
  One latency benchmark, as at lines 132 to 135: await the sampler, convert the series,
  extend the list. An exception of the sampler leaves the coroutine.
\<close>

definition latency_step :: "env \<Rightarrow> bench \<Rightarrow> string \<Rightarrow> driver \<Rightarrow> error + driver" where
  "latency_step e b name s =
     and_then (run_latency_benchmark e b NUM_REQUESTS) (\<lambda>latencies.
     and_then (convert_latencies_to_perf_metrics name latencies) (\<lambda>(records, _).
     Inr (s\<lparr>perf_metrics := perf_metrics s @ records, runs := runs s @ [b]\<rparr>)))"

text \<open>One throughput benchmark, as at lines 156 to 162.\<close>

definition throughput_step :: "env \<Rightarrow> bench \<Rightarrow> string \<Rightarrow> driver \<Rightarrow> error + driver" where
  "throughput_step e b name s =
     and_then (run_throughput_benchmark e b BATCH_SIZE NUM_TRIALS TRIAL_RUNTIME_S)
       (\<lambda>(mean, std).
     Inr (s\<lparr>perf_metrics := perf_metrics s @ convert_throughput_to_perf_metrics name mean std,
            runs := runs s @ [b]\<rparr>))"

text \<open>The body of \<^verbatim>\<open>if run_http:\<close>, lines 128 to 175.\<close>

definition http_benchmarks :: "env \<Rightarrow> bool \<Rightarrow> bool \<Rightarrow> driver \<Rightarrow> error + driver" where
  "http_benchmarks e run_latency run_throughput s =
     and_then
       (if run_latency then
          and_then (latency_step e (Latency HTTP None) ''http'' s) (\<lambda>s.
          and_then (latency_step e (Latency HTTP (Some 1000000)) ''http_1mb'' s) (\<lambda>s.
          latency_step e (Latency HTTP (Some 10000000)) ''http_10mb'' s))
        else Inr s) (\<lambda>s.
     if run_throughput then
       and_then (throughput_step e (Throughput HTTP None) ''http'' s) (\<lambda>s.
       throughput_step e (Throughput HTTP (Some 100)) ''http_100_max_ongoing_requests'' s)
     else Inr s)"

text \<open>The body of \<^verbatim>\<open>if run_grpc:\<close>, lines 178 to 234.\<close>

definition grpc_benchmarks :: "env \<Rightarrow> bool \<Rightarrow> bool \<Rightarrow> driver \<Rightarrow> error + driver" where
  "grpc_benchmarks e run_latency run_throughput s =
     and_then
       (if run_latency then
          and_then (latency_step e (Latency GRPC None) ''grpc'' s) (\<lambda>s.
          and_then (latency_step e (Latency GRPC (Some 1000000)) ''grpc_1mb'' s) (\<lambda>s.
          latency_step e (Latency GRPC (Some 10000000)) ''grpc_10mb'' s))
        else Inr s) (\<lambda>s.
     if run_throughput then
       and_then (throughput_step e (Throughput GRPC None) ''grpc'' s) (\<lambda>s.
       throughput_step e (Throughput GRPC (Some 100)) ''grpc_100_max_ongoing_requests'' s)
     else Inr s)"

text \<open>The body of \<^verbatim>\<open>if run_handle:\<close>, lines 237 to 283.\<close>

definition handle_benchmarks :: "env \<Rightarrow> bool \<Rightarrow> bool \<Rightarrow> driver \<Rightarrow> error + driver" where
  "handle_benchmarks e run_latency run_throughput s =
     and_then
       (if run_latency then
          and_then (latency_step e (Latency HANDLE None) ''handle'' s) (\<lambda>s.
          and_then (latency_step e (Latency HANDLE (Some 1000000)) ''handle_1mb'' s) (\<lambda>s.
          latency_step e (Latency HANDLE (Some 10000000)) ''handle_10mb'' s))
        else Inr s) (\<lambda>s.
     if run_throughput then
       and_then (throughput_step e (Throughput HANDLE None) ''handle'' s) (\<lambda>s.
       throughput_step e (Throughput HANDLE (Some 100)) ''handle_100_max_ongoing_requests'' s)
     else Inr s)"

text \<open>
  What a run leaves behind: the dictionary handed to \<^verbatim>\<open>save_test_results\<close> with
  the output path, and the benchmarks that ran.
\<close>

record saved =
  results :: "(string \<times> pydict list) list"
  output_path :: "string option"
  benchmarks_run :: "bench list"

text \<open>
  The coroutine \<^verbatim>\<open>_main\<close>, lines 106 to 287 (an Isabelle name cannot start with an
  underscore). Starting Serve, deploying the applications, opening the gRPC channel and
  logging return nothing the coroutine uses and are left out.
\<close>

definition async_main ::
  "env \<Rightarrow> string option \<Rightarrow> bool \<Rightarrow> bool \<Rightarrow> bool \<Rightarrow> bool \<Rightarrow> bool \<Rightarrow> error + saved" where
  "async_main e path run_http run_grpc run_handle run_latency run_throughput =
     and_then
       (if run_http
        then http_benchmarks e run_latency run_throughput \<lparr>perf_metrics = [], runs = []\<rparr>
        else Inr \<lparr>perf_metrics = [], runs = []\<rparr>) (\<lambda>s.
     and_then
       (if run_grpc then grpc_benchmarks e run_latency run_throughput s else Inr s) (\<lambda>s.
     and_then
       (if run_handle then handle_benchmarks e run_latency run_throughput s else Inr s) (\<lambda>s.
     Inr \<lparr>results = [(''perf_metrics'', perf_metrics s)],
          output_path = path,
          benchmarks_run = runs s\<rparr>)))"

text \<open>
  The command \<^verbatim>\<open>main\<close>, lines 298 to 320: with none of the five selection flags
  set, \<^verbatim>\<open>run_all\<close> becomes true; with \<^verbatim>\<open>run_all\<close>, all five become true.
\<close>

definition main ::
  "env \<Rightarrow> string option \<Rightarrow> bool \<Rightarrow> bool \<Rightarrow> bool \<Rightarrow> bool \<Rightarrow> bool \<Rightarrow> bool \<Rightarrow> error + saved" where
  "main e path run_all run_http run_grpc run_handle run_latency run_throughput =
     (let run_all =
            (if \<not> (run_http \<or> run_grpc \<or> run_handle \<or> run_latency \<or> run_throughput)
             then True else run_all)
      in if run_all then async_main e path True True True True True
         else async_main e path run_http run_grpc run_handle run_latency run_throughput)"

subsection \<open>Run order and the records of a benchmark\<close>

text \<open>
  The benchmarks in the order of the program text: HTTP, then gRPC, then the handle; for
  each transport the three latency benchmarks (no payload, 1 MB, 10 MB), then the two
  throughput benchmarks.
\<close>

definition run_order :: "bench list" where
  "run_order =
     [ Latency HTTP None, Latency HTTP (Some 1000000), Latency HTTP (Some 10000000),
       Throughput HTTP None, Throughput HTTP (Some 100),
       Latency GRPC None, Latency GRPC (Some 1000000), Latency GRPC (Some 10000000),
       Throughput GRPC None, Throughput GRPC (Some 100),
       Latency HANDLE None, Latency HANDLE (Some 1000000), Latency HANDLE (Some 10000000),
       Throughput HANDLE None, Throughput HANDLE (Some 100) ]"

text \<open>A benchmark is selected when its transport and its kind are.\<close>

fun transport_on :: "bool \<Rightarrow> bool \<Rightarrow> bool \<Rightarrow> transport \<Rightarrow> bool" where
  "transport_on run_http run_grpc run_handle HTTP = run_http"
| "transport_on run_http run_grpc run_handle GRPC = run_grpc"
| "transport_on run_http run_grpc run_handle HANDLE = run_handle"

fun selected :: "bool \<Rightarrow> bool \<Rightarrow> bool \<Rightarrow> bool \<Rightarrow> bool \<Rightarrow> bench \<Rightarrow> bool" where
  "selected run_http run_grpc run_handle run_latency run_throughput (Latency t p) =
     (transport_on run_http run_grpc run_handle t \<and> run_latency)"
| "selected run_http run_grpc run_handle run_latency run_throughput (Throughput t m) =
     (transport_on run_http run_grpc run_handle t \<and> run_throughput)"

text \<open>The name prefix the driver gives the records of a benchmark.\<close>

fun transport_name :: "transport \<Rightarrow> string" where
  "transport_name HTTP = ''http''"
| "transport_name GRPC = ''grpc''"
| "transport_name HANDLE = ''handle''"

fun metric_prefix :: "bench \<Rightarrow> string" where
  "metric_prefix (Latency t None) = transport_name t"
| "metric_prefix (Latency t (Some n)) =
     transport_name t @ (if n = 1000000 then ''_1mb'' else ''_10mb'')"
| "metric_prefix (Throughput t None) = transport_name t"
| "metric_prefix (Throughput t (Some n)) = transport_name t @ ''_100_max_ongoing_requests''"

text \<open>
  The records of one benchmark: what the reporter makes of the sampler's result in
  the environment (none when the sampler or the reporter raises).
\<close>

definition report :: "env \<Rightarrow> bench \<Rightarrow> pydict list" where
  "report e b =
     (case b of
        Latency t p \<Rightarrow>
          (case run_latency_benchmark e b NUM_REQUESTS of
             Inl err \<Rightarrow> []
           | Inr latencies \<Rightarrow>
               (case convert_latencies_to_perf_metrics (metric_prefix b) latencies of
                  Inl err \<Rightarrow> []
                | Inr (records, l) \<Rightarrow> records))
      | Throughput t m \<Rightarrow>
          (case run_throughput_benchmark e b BATCH_SIZE NUM_TRIALS TRIAL_RUNTIME_S of
             Inl err \<Rightarrow> []
           | Inr (mean, std) \<Rightarrow> convert_throughput_to_perf_metrics (metric_prefix b) mean std))"

text \<open>
  The shape of a performance metric record: exactly the three keys, a string name, a
  float value, and a type that is the string LATENCY or THROUGHPUT.
\<close>

definition perf_metric_record :: "pydict \<Rightarrow> bool" where
  "perf_metric_record r =
     (case r of
        [(k1, Str name), (k2, Float v), (k3, Str kind)] \<Rightarrow>
          k1 = ''perf_metric_name'' \<and> k2 = ''perf_metric_value'' \<and> k3 = ''perf_metric_type''
          \<and> (kind = ''LATENCY'' \<or> kind = ''THROUGHPUT'')
      | _ \<Rightarrow> False)"

text \<open>
  The sampler of a benchmark returns in the environment: the call the driver makes for
  this benchmark yields a result, not an exception.
\<close>

definition returns :: "env \<Rightarrow> bench \<Rightarrow> bool" where
  "returns e b =
     (case b of
        Latency t p \<Rightarrow>
          (case run_latency_benchmark e b NUM_REQUESTS of Inl err \<Rightarrow> False | Inr l \<Rightarrow> True)
      | Throughput t m \<Rightarrow>
          (case run_throughput_benchmark e b BATCH_SIZE NUM_TRIALS TRIAL_RUNTIME_S of
             Inl err \<Rightarrow> False | Inr r \<Rightarrow> True))"

text \<open>
  A stretch of a run from state \<open>s\<close> to state \<open>s'\<close> that ran exactly the benchmarks
  \<open>bs\<close>, in that order, and appended exactly their records, in that order.
\<close>

definition extends :: "env \<Rightarrow> bench list \<Rightarrow> driver \<Rightarrow> driver \<Rightarrow> bool" where
  "extends e bs s s' =
     (runs s' = runs s @ bs \<and> perf_metrics s' = perf_metrics s @ concat (map (report e) bs))"

text \<open>The benchmarks of one transport that the two kind flags select, in program order.\<close>

definition block :: "transport \<Rightarrow> bool \<Rightarrow> bool \<Rightarrow> bench list" where
  "block t run_latency run_throughput =
     (if run_latency
      then [Latency t None, Latency t (Some 1000000), Latency t (Some 10000000)] else [])
     @ (if run_throughput then [Throughput t None, Throughput t (Some 100)] else [])"

section \<open>Properties\<close>

subsection \<open>Quantiles by interpolation\<close>

lemma sort_not_Nil:
  fixes xs :: "real list"
  assumes "xs \<noteq> []"
  shows "sort xs \<noteq> []"
proof
  assume "sort xs = []"
  then have "set (sort xs) = {}" by simp
  then have "set xs = {}" by (simp only: set_sort)
  with assms show False by simp
qed

lemma quantile_nonempty:
  assumes "samples \<noteq> []" "0 \<le> q" "q \<le> 1"
  shows "quantile samples q =
     Inr (Finite (interpolate (sort samples) (q * real (length samples - 1))), samples)"
  using assms by (simp add: quantile_def Let_def)

lemma nearest_ranks:
  assumes "0 \<le> h" "h \<le> real (length s - 1)" "s \<noteq> []"
  shows "nat \<lfloor>h\<rfloor> \<le> nat \<lceil>h\<rceil>" and "nat \<lceil>h\<rceil> < length s"
proof -
  show "nat \<lfloor>h\<rfloor> \<le> nat \<lceil>h\<rceil>"
    by (rule nat_mono) (rule floor_le_ceiling)
  have "\<lceil>h\<rceil> \<le> int (length s - 1)"
    using assms(2) by (simp add: ceiling_le_iff)
  moreover have "0 < length s" using assms(3) by simp
  ultimately show "nat \<lceil>h\<rceil> < length s" by linarith
qed

lemma interpolate_bounds:
  assumes "sorted s" "0 \<le> h" "h \<le> real (length s - 1)" "s \<noteq> []"
  shows "s ! nat \<lfloor>h\<rfloor> \<le> interpolate s h" and "interpolate s h \<le> s ! nat \<lceil>h\<rceil>"
proof -
  let ?lo = "nat \<lfloor>h\<rfloor>" and ?hi = "nat \<lceil>h\<rceil>"
  have le: "s ! ?lo \<le> s ! ?hi"
    using assms nearest_ranks[OF assms(2,3,4)] by (simp add: sorted_nth_mono)
  have lo: "real ?lo = of_int \<lfloor>h\<rfloor>" using assms(2) by simp
  have w0: "0 \<le> h - real ?lo" using lo by linarith
  have w1: "h - real ?lo \<le> 1" using lo by linarith
  have "0 \<le> (h - real ?lo) * (s ! ?hi - s ! ?lo)"
    using w0 le by simp
  then show "s ! ?lo \<le> interpolate s h"
    by (simp add: interpolate_def Let_def)
  have "(h - real ?lo) * (s ! ?hi - s ! ?lo) \<le> 1 * (s ! ?hi - s ! ?lo)"
    using w1 le by (intro mult_right_mono) simp_all
  then show "interpolate s h \<le> s ! ?hi"
    by (simp add: interpolate_def Let_def)
qed

lemma interpolate_mono:
  assumes "sorted s" "0 \<le> h1" "h1 \<le> h2" "h2 \<le> real (length s - 1)" "s \<noteq> []"
  shows "interpolate s h1 \<le> interpolate s h2"
proof (cases "\<lceil>h1\<rceil> \<le> \<lfloor>h2\<rfloor>")
  case True
  have h2: "0 \<le> h2" using assms by linarith
  have h1: "h1 \<le> real (length s - 1)" using assms by linarith
  have "interpolate s h1 \<le> s ! nat \<lceil>h1\<rceil>"
    using interpolate_bounds(2)[OF assms(1,2) h1 assms(5)] .
  also have "\<dots> \<le> s ! nat \<lfloor>h2\<rfloor>"
  proof -
    have "nat \<lceil>h1\<rceil> \<le> nat \<lfloor>h2\<rfloor>" using True by (rule nat_mono)
    moreover have "nat \<lfloor>h2\<rfloor> < length s"
      using nearest_ranks[OF h2 assms(4,5)] by linarith
    ultimately show ?thesis using assms(1) by (simp add: sorted_nth_mono)
  qed
  also have "\<dots> \<le> interpolate s h2"
    using interpolate_bounds(1)[OF assms(1) h2 assms(4,5)] .
  finally show ?thesis .
next
  case False
  then have lt: "\<lfloor>h2\<rfloor> < \<lceil>h1\<rceil>" by simp
  have fl: "\<lfloor>h1\<rfloor> = \<lfloor>h2\<rfloor>"
    using lt assms(3) floor_mono[OF assms(3)] by linarith
  have ce: "\<lceil>h1\<rceil> = \<lceil>h2\<rceil>"
    using lt assms(3) ceiling_mono[OF assms(3)] by linarith
  have h2: "0 \<le> h2" using assms by linarith
  have le: "s ! nat \<lfloor>h2\<rfloor> \<le> s ! nat \<lceil>h2\<rceil>"
    using assms(1) nearest_ranks[OF h2 assms(4,5)] by (simp add: sorted_nth_mono)
  have "(h1 - real (nat \<lfloor>h2\<rfloor>)) * (s ! nat \<lceil>h2\<rceil> - s ! nat \<lfloor>h2\<rfloor>)
      \<le> (h2 - real (nat \<lfloor>h2\<rfloor>)) * (s ! nat \<lceil>h2\<rceil> - s ! nat \<lfloor>h2\<rfloor>)"
    using assms(3) le by (intro mult_right_mono) simp_all
  then show ?thesis
    by (simp add: interpolate_def Let_def fl ce)
qed

lemma interpolate_constant:
  assumes "\<forall>x\<in>set s. x = d" "0 \<le> h" "h \<le> real (length s - 1)" "s \<noteq> []"
  shows "interpolate s h = d"
proof -
  have "nat \<lfloor>h\<rfloor> < length s" "nat \<lceil>h\<rceil> < length s"
    using nearest_ranks[OF assms(2,3,4)] by linarith+
  then have "s ! nat \<lfloor>h\<rfloor> = d" "s ! nat \<lceil>h\<rceil> = d"
    using assms(1) by simp_all
  then show ?thesis by (simp add: interpolate_def Let_def)
qed

lemma interpolate_weights:
  assumes "0 \<le> h"
  shows "interpolate s h =
     (1 - (h - of_int \<lfloor>h\<rfloor>)) * s ! nat \<lfloor>h\<rfloor> + (h - of_int \<lfloor>h\<rfloor>) * s ! nat \<lceil>h\<rceil>"
proof -
  have "real (nat \<lfloor>h\<rfloor>) = of_int \<lfloor>h\<rfloor>" using assms by simp
  then show ?thesis by (simp add: interpolate_def Let_def algebra_simps)
qed

lemma convert_latencies_nonempty:
  assumes "latencies \<noteq> []"
  shows "convert_latencies_to_perf_metrics name latencies =
     Inr ([ [ (''perf_metric_name'', Str (name @ ''_p50_latency'')),
              (''perf_metric_value'',
               Float (Finite (interpolate (sort latencies) (0.5 * real (length latencies - 1))))),
              (''perf_metric_type'', Str ''LATENCY'') ],
            [ (''perf_metric_name'', Str (name @ ''_p90_latency'')),
              (''perf_metric_value'',
               Float (Finite (interpolate (sort latencies) (0.9 * real (length latencies - 1))))),
              (''perf_metric_type'', Str ''LATENCY'') ],
            [ (''perf_metric_name'', Str (name @ ''_p95_latency'')),
              (''perf_metric_value'',
               Float (Finite (interpolate (sort latencies) (0.95 * real (length latencies - 1))))),
              (''perf_metric_type'', Str ''LATENCY'') ],
            [ (''perf_metric_name'', Str (name @ ''_p99_latency'')),
              (''perf_metric_value'',
               Float (Finite (interpolate (sort latencies) (0.99 * real (length latencies - 1))))),
              (''perf_metric_type'', Str ''LATENCY'') ] ],
          latencies)"
  using assms
  by (simp add: convert_latencies_to_perf_metrics_def and_then_def quantile_nonempty)

lemma convert_latencies_empty:
  "convert_latencies_to_perf_metrics name [] =
     Inr ([ [ (''perf_metric_name'', Str (name @ ''_p50_latency'')),
              (''perf_metric_value'', Float NaN),
              (''perf_metric_type'', Str ''LATENCY'') ],
            [ (''perf_metric_name'', Str (name @ ''_p90_latency'')),
              (''perf_metric_value'', Float NaN),
              (''perf_metric_type'', Str ''LATENCY'') ],
            [ (''perf_metric_name'', Str (name @ ''_p95_latency'')),
              (''perf_metric_value'', Float NaN),
              (''perf_metric_type'', Str ''LATENCY'') ],
            [ (''perf_metric_name'', Str (name @ ''_p99_latency'')),
              (''perf_metric_value'', Float NaN),
              (''perf_metric_type'', Str ''LATENCY'') ] ],
          [])"
  by (simp add: convert_latencies_to_perf_metrics_def and_then_def quantile_def)

lemma convert_latencies_returns:
  "\<exists>records. convert_latencies_to_perf_metrics name latencies = Inr (records, latencies)"
proof (cases "latencies = []")
  case True
  then show ?thesis by (simp add: convert_latencies_empty)
next
  case False
  then show ?thesis by (simp add: convert_latencies_nonempty)
qed

subsection \<open>The latency reporter\<close>

text \<open>
  C1. For every name and every series with at least one sample, the latency reporter
  returns exactly four records, in the order p50, p90, p95, p99, each of type LATENCY and
  named name_p50_latency to name_p99_latency. The value of each is the quantile by
  linear interpolation between the two nearest ranks of the sorted samples: with \<open>h\<close>
  the rank \<open>q * (n - 1)\<close>, the samples at ranks \<open>floor h\<close> and \<open>ceiling h\<close> weighted
  by the distance of \<open>h\<close> to the other one.
\<close>

theorem convert_latencies_four_quantiles:
  fixes latencies :: "real list"
  assumes "latencies \<noteq> []"
  defines "s \<equiv> sort latencies"
  defines "rank \<equiv> \<lambda>q::real. q * real (length latencies - 1)"
  defines "between \<equiv> \<lambda>h::real.
             (1 - (h - of_int \<lfloor>h\<rfloor>)) * s ! nat \<lfloor>h\<rfloor> + (h - of_int \<lfloor>h\<rfloor>) * s ! nat \<lceil>h\<rceil>"
  shows "convert_latencies_to_perf_metrics name latencies =
     Inr ([ [ (''perf_metric_name'', Str (name @ ''_p50_latency'')),
              (''perf_metric_value'', Float (Finite (between (rank 0.5)))),
              (''perf_metric_type'', Str ''LATENCY'') ],
            [ (''perf_metric_name'', Str (name @ ''_p90_latency'')),
              (''perf_metric_value'', Float (Finite (between (rank 0.9)))),
              (''perf_metric_type'', Str ''LATENCY'') ],
            [ (''perf_metric_name'', Str (name @ ''_p95_latency'')),
              (''perf_metric_value'', Float (Finite (between (rank 0.95)))),
              (''perf_metric_type'', Str ''LATENCY'') ],
            [ (''perf_metric_name'', Str (name @ ''_p99_latency'')),
              (''perf_metric_value'', Float (Finite (between (rank 0.99)))),
              (''perf_metric_type'', Str ''LATENCY'') ] ],
          latencies)"
proof -
  have "interpolate s (rank q) = between (rank q)" if "0 \<le> q" for q
  proof -
    have "0 \<le> rank q" using that by (simp add: rank_def)
    then show ?thesis unfolding between_def by (rule interpolate_weights)
  qed
  then have "interpolate s (rank 0.5) = between (rank 0.5)"
    "interpolate s (rank 0.9) = between (rank 0.9)"
    "interpolate s (rank 0.95) = between (rank 0.95)"
    "interpolate s (rank 0.99) = between (rank 0.99)"
    by simp_all
  then show ?thesis
    using convert_latencies_nonempty[OF assms(1), of name]
    by (simp add: s_def rank_def)
qed

theorem convert_latencies_four_quantiles_witness:
  "convert_latencies_to_perf_metrics ''http'' [3, 1, 2] =
     Inr ([ [ (''perf_metric_name'', Str ''http_p50_latency''),
              (''perf_metric_value'', Float (Finite 2)),
              (''perf_metric_type'', Str ''LATENCY'') ],
            [ (''perf_metric_name'', Str ''http_p90_latency''),
              (''perf_metric_value'', Float (Finite 2.8)),
              (''perf_metric_type'', Str ''LATENCY'') ],
            [ (''perf_metric_name'', Str ''http_p95_latency''),
              (''perf_metric_value'', Float (Finite 2.9)),
              (''perf_metric_type'', Str ''LATENCY'') ],
            [ (''perf_metric_name'', Str ''http_p99_latency''),
              (''perf_metric_value'', Float (Finite 2.98)),
              (''perf_metric_type'', Str ''LATENCY'') ] ],
          [3, 1, 2])"
  using convert_latencies_four_quantiles[of "[3, 1, 2]" "''http''"]
  by simp

text \<open>
  C3. Quantile monotonicity: for every series with at least one sample, the values of
  the four records satisfy p50 \<le> p90 \<le> p95 \<le> p99. The four values are finite
  floats, compared as the real numbers they stand for.
\<close>

theorem latency_quantiles_monotone:
  fixes latencies :: "real list"
  assumes "latencies \<noteq> []"
  defines "v \<equiv> \<lambda>q::real. interpolate (sort latencies) (q * real (length latencies - 1))"
  shows "convert_latencies_to_perf_metrics name latencies =
     Inr ([ [ (''perf_metric_name'', Str (name @ ''_p50_latency'')),
              (''perf_metric_value'', Float (Finite (v 0.5))),
              (''perf_metric_type'', Str ''LATENCY'') ],
            [ (''perf_metric_name'', Str (name @ ''_p90_latency'')),
              (''perf_metric_value'', Float (Finite (v 0.9))),
              (''perf_metric_type'', Str ''LATENCY'') ],
            [ (''perf_metric_name'', Str (name @ ''_p95_latency'')),
              (''perf_metric_value'', Float (Finite (v 0.95))),
              (''perf_metric_type'', Str ''LATENCY'') ],
            [ (''perf_metric_name'', Str (name @ ''_p99_latency'')),
              (''perf_metric_value'', Float (Finite (v 0.99))),
              (''perf_metric_type'', Str ''LATENCY'') ] ],
          latencies)
     \<and> v 0.5 \<le> v 0.9 \<and> v 0.9 \<le> v 0.95 \<and> v 0.95 \<le> v 0.99"
proof -
  let ?s = "sort latencies" and ?n = "real (length latencies - 1)"
  have s: "sorted ?s" "?s \<noteq> []" "length ?s = length latencies"
    using assms(1) by (simp_all add: sort_not_Nil)
  have mono: "v p \<le> v q" if "0 \<le> p" "p \<le> q" "q \<le> 1" for p q
  proof -
    have "0 \<le> p * ?n" using that by simp
    moreover have "p * ?n \<le> q * ?n" using that by (simp add: mult_right_mono)
    moreover have "q * ?n \<le> real (length ?s - 1)"
      using that s(3) by (simp add: mult_left_le_one_le)
    ultimately show ?thesis
      unfolding v_def using s(1,2) by (intro interpolate_mono)
  qed
  have "v 0.5 \<le> v 0.9" "v 0.9 \<le> v 0.95" "v 0.95 \<le> v 0.99"
    by (rule mono; simp)+
  then show ?thesis
    using convert_latencies_nonempty[OF assms(1), of name] by (simp add: v_def)
qed

text \<open>The samples 5, 1, 4, 2 sort to 1, 2, 4, 5; the ranks are 1.5, 2.7, 2.85 and 2.97.\<close>

theorem latency_quantiles_monotone_witness:
  "convert_latencies_to_perf_metrics ''grpc'' [5, 1, 4, 2] =
     Inr ([ [ (''perf_metric_name'', Str ''grpc_p50_latency''),
              (''perf_metric_value'', Float (Finite 3)),
              (''perf_metric_type'', Str ''LATENCY'') ],
            [ (''perf_metric_name'', Str ''grpc_p90_latency''),
              (''perf_metric_value'', Float (Finite 4.7)),
              (''perf_metric_type'', Str ''LATENCY'') ],
            [ (''perf_metric_name'', Str ''grpc_p95_latency''),
              (''perf_metric_value'', Float (Finite 4.85)),
              (''perf_metric_type'', Str ''LATENCY'') ],
            [ (''perf_metric_name'', Str ''grpc_p99_latency''),
              (''perf_metric_value'', Float (Finite 4.97)),
              (''perf_metric_type'', Str ''LATENCY'') ] ],
          [5, 1, 4, 2])
   \<and> (3::real) \<le> 4.7 \<and> (4.7::real) \<le> 4.85 \<and> (4.85::real) \<le> 4.97"
  using latency_quantiles_monotone[of "[5, 1, 4, 2]" "''grpc''"]
  by (simp add: interpolate_def)

text \<open>
  C8. For every constant series, that is a series with at least one sample in which
  every sample is the same value \<open>d\<close>, all four quantile values are \<open>d\<close>.
\<close>

theorem constant_latencies_constant_quantiles:
  fixes latencies :: "real list"
  assumes "latencies \<noteq> []" and "\<forall>x\<in>set latencies. x = d"
  shows "convert_latencies_to_perf_metrics name latencies =
     Inr ([ [ (''perf_metric_name'', Str (name @ ''_p50_latency'')),
              (''perf_metric_value'', Float (Finite d)),
              (''perf_metric_type'', Str ''LATENCY'') ],
            [ (''perf_metric_name'', Str (name @ ''_p90_latency'')),
              (''perf_metric_value'', Float (Finite d)),
              (''perf_metric_type'', Str ''LATENCY'') ],
            [ (''perf_metric_name'', Str (name @ ''_p95_latency'')),
              (''perf_metric_value'', Float (Finite d)),
              (''perf_metric_type'', Str ''LATENCY'') ],
            [ (''perf_metric_name'', Str (name @ ''_p99_latency'')),
              (''perf_metric_value'', Float (Finite d)),
              (''perf_metric_type'', Str ''LATENCY'') ] ],
          latencies)"
proof -
  let ?s = "sort latencies" and ?n = "real (length latencies - 1)"
  have s: "\<forall>x\<in>set ?s. x = d" "?s \<noteq> []" "length ?s = length latencies"
    using assms by (simp_all add: sort_not_Nil)
  have c: "interpolate ?s (q * ?n) = d" if "0 \<le> q" "q \<le> 1" for q
  proof -
    have "0 \<le> q * ?n" using that by simp
    moreover have "q * ?n \<le> real (length ?s - 1)"
      using that s(3) by (simp add: mult_left_le_one_le)
    ultimately show ?thesis using s(1,2) by (intro interpolate_constant)
  qed
  have "interpolate ?s (0.5 * ?n) = d" "interpolate ?s (0.9 * ?n) = d"
    "interpolate ?s (0.95 * ?n) = d" "interpolate ?s (0.99 * ?n) = d"
    by (rule c; simp)+
  then show ?thesis
    using convert_latencies_nonempty[OF assms(1), of name] by simp
qed

theorem constant_latencies_constant_quantiles_witness:
  "convert_latencies_to_perf_metrics ''handle'' [7, 7, 7] =
     Inr ([ [ (''perf_metric_name'', Str ''handle_p50_latency''),
              (''perf_metric_value'', Float (Finite 7)),
              (''perf_metric_type'', Str ''LATENCY'') ],
            [ (''perf_metric_name'', Str ''handle_p90_latency''),
              (''perf_metric_value'', Float (Finite 7)),
              (''perf_metric_type'', Str ''LATENCY'') ],
            [ (''perf_metric_name'', Str ''handle_p95_latency''),
              (''perf_metric_value'', Float (Finite 7)),
              (''perf_metric_type'', Str ''LATENCY'') ],
            [ (''perf_metric_name'', Str ''handle_p99_latency''),
              (''perf_metric_value'', Float (Finite 7)),
              (''perf_metric_type'', Str ''LATENCY'') ] ],
          [7, 7, 7])"
  using constant_latencies_constant_quantiles[of "[7, 7, 7]" 7 "''handle''"]
  by simp

text \<open>
  C10. On a series with no sample the latency reporter does not raise: it returns
  exactly four records of type LATENCY with the usual names, each with the value NaN.
\<close>

theorem convert_latencies_no_samples:
  "convert_latencies_to_perf_metrics name [] =
     Inr ([ [ (''perf_metric_name'', Str (name @ ''_p50_latency'')),
              (''perf_metric_value'', Float NaN),
              (''perf_metric_type'', Str ''LATENCY'') ],
            [ (''perf_metric_name'', Str (name @ ''_p90_latency'')),
              (''perf_metric_value'', Float NaN),
              (''perf_metric_type'', Str ''LATENCY'') ],
            [ (''perf_metric_name'', Str (name @ ''_p95_latency'')),
              (''perf_metric_value'', Float NaN),
              (''perf_metric_type'', Str ''LATENCY'') ],
            [ (''perf_metric_name'', Str (name @ ''_p99_latency'')),
              (''perf_metric_value'', Float NaN),
              (''perf_metric_type'', Str ''LATENCY'') ] ],
          [])"
  by (rule convert_latencies_empty)

subsection \<open>The throughput reporter\<close>

text \<open>
  C2. For every name and every two floats mean and std, the throughput reporter returns
  exactly two records, both of type THROUGHPUT: the first named name_avg_rps with value
  mean, the second named name_throughput_std with value std. For "http", 120.0 and 5.0
  these are http_avg_rps with 120.0 and http_throughput_std with 5.0, in that order.
\<close>

theorem convert_throughput_two_records:
  "convert_throughput_to_perf_metrics name mean std =
     [ [ (''perf_metric_name'', Str (name @ ''_avg_rps'')),
         (''perf_metric_value'', Float mean),
         (''perf_metric_type'', Str ''THROUGHPUT'') ],
       [ (''perf_metric_name'', Str (name @ ''_throughput_std'')),
         (''perf_metric_value'', Float std),
         (''perf_metric_type'', Str ''THROUGHPUT'') ] ]
   \<and> length (convert_throughput_to_perf_metrics name mean std) = 2
   \<and> convert_throughput_to_perf_metrics ''http'' (Finite 120.0) (Finite 5.0) =
     [ [ (''perf_metric_name'', Str ''http_avg_rps''),
         (''perf_metric_value'', Float (Finite 120)),
         (''perf_metric_type'', Str ''THROUGHPUT'') ],
       [ (''perf_metric_name'', Str ''http_throughput_std''),
         (''perf_metric_value'', Float (Finite 5)),
         (''perf_metric_type'', Str ''THROUGHPUT'') ] ]"
  by (simp add: convert_throughput_to_perf_metrics_def)

subsection \<open>The driver: runs and records\<close>

lemma and_then_Inr:
  "and_then m f = Inr y \<longleftrightarrow> (\<exists>x. m = Inr x \<and> f x = Inr y)"
  by (cases m) (simp_all add: and_then_def)

lemma extends_refl: "extends e [] s s"
  by (simp add: extends_def)

lemma extends_trans:
  "extends e bs s s' \<Longrightarrow> extends e cs s' s'' \<Longrightarrow> extends e (bs @ cs) s s''"
  by (simp add: extends_def)

lemma and_then_extends:
  assumes "and_then m g = Inr s''"
    and "\<And>s'. m = Inr s' \<Longrightarrow> extends e bs s s'"
    and "\<And>s'. g s' = Inr s'' \<Longrightarrow> extends e cs s' s''"
  shows "extends e (bs @ cs) s s''"
  using assms by (auto simp: and_then_Inr intro: extends_trans)

lemma latency_step_extends:
  assumes "latency_step e (Latency t p) name s = Inr s'"
    and "name = metric_prefix (Latency t p)"
  shows "extends e [Latency t p] s s'"
  using assms
  by (auto simp: latency_step_def and_then_Inr extends_def report_def)

lemma throughput_step_extends:
  assumes "throughput_step e (Throughput t m) name s = Inr s'"
    and "name = metric_prefix (Throughput t m)"
  shows "extends e [Throughput t m] s s'"
  using assms
  by (auto simp: throughput_step_def and_then_Inr extends_def report_def)

lemma latency_steps_extend:
  assumes "(if run_latency then
              and_then (latency_step e (Latency t None) n1 s) (\<lambda>s.
              and_then (latency_step e (Latency t (Some 1000000)) n2 s) (\<lambda>s.
              latency_step e (Latency t (Some 10000000)) n3 s))
            else Inr s) = Inr s'"
    and "n1 = transport_name t" "n2 = transport_name t @ ''_1mb''"
      "n3 = transport_name t @ ''_10mb''"
  shows "extends e
     (if run_latency
      then [Latency t None, Latency t (Some 1000000), Latency t (Some 10000000)] else [])
     s s'"
proof (cases run_latency)
  case True
  with assms(1) obtain a1 a2 where
    "latency_step e (Latency t None) n1 s = Inr a1"
    "latency_step e (Latency t (Some 1000000)) n2 a1 = Inr a2"
    "latency_step e (Latency t (Some 10000000)) n3 a2 = Inr s'"
    by (auto simp: and_then_Inr)
  then have "extends e [Latency t None] s a1"
    "extends e [Latency t (Some 1000000)] a1 a2"
    "extends e [Latency t (Some 10000000)] a2 s'"
    using assms(2-4) by (simp_all add: latency_step_extends)
  then have "extends e ([Latency t None] @ [Latency t (Some 1000000)]
      @ [Latency t (Some 10000000)]) s s'"
    by (blast intro: extends_trans)
  with True show ?thesis by simp
next
  case False
  with assms(1) show ?thesis by (simp add: extends_refl)
qed

lemma throughput_steps_extend:
  assumes "(if run_throughput then
              and_then (throughput_step e (Throughput t None) n1 s) (\<lambda>s.
              throughput_step e (Throughput t (Some 100)) n2 s)
            else Inr s) = Inr s'"
    and "n1 = transport_name t" "n2 = transport_name t @ ''_100_max_ongoing_requests''"
  shows "extends e
     (if run_throughput then [Throughput t None, Throughput t (Some 100)] else []) s s'"
proof (cases run_throughput)
  case True
  with assms(1) obtain a1 where
    "throughput_step e (Throughput t None) n1 s = Inr a1"
    "throughput_step e (Throughput t (Some 100)) n2 a1 = Inr s'"
    by (auto simp: and_then_Inr)
  then have "extends e [Throughput t None] s a1"
    "extends e [Throughput t (Some 100)] a1 s'"
    using assms(2,3) by (simp_all add: throughput_step_extends)
  then have "extends e ([Throughput t None] @ [Throughput t (Some 100)]) s s'"
    by (blast intro: extends_trans)
  with True show ?thesis by simp
next
  case False
  with assms(1) show ?thesis by (simp add: extends_refl)
qed

lemma http_benchmarks_extends:
  assumes "http_benchmarks e run_latency run_throughput s = Inr s'"
  shows "extends e (block HTTP run_latency run_throughput) s s'"
  unfolding block_def
  by (rule and_then_extends[OF assms[unfolded http_benchmarks_def]])
     (erule latency_steps_extend throughput_steps_extend; simp)+

lemma grpc_benchmarks_extends:
  assumes "grpc_benchmarks e run_latency run_throughput s = Inr s'"
  shows "extends e (block GRPC run_latency run_throughput) s s'"
  unfolding block_def
  by (rule and_then_extends[OF assms[unfolded grpc_benchmarks_def]])
     (erule latency_steps_extend throughput_steps_extend; simp)+

lemma handle_benchmarks_extends:
  assumes "handle_benchmarks e run_latency run_throughput s = Inr s'"
  shows "extends e (block HANDLE run_latency run_throughput) s s'"
  unfolding block_def
  by (rule and_then_extends[OF assms[unfolded handle_benchmarks_def]])
     (erule latency_steps_extend throughput_steps_extend; simp)+

lemma selected_run_order:
  "filter (selected run_http run_grpc run_handle run_latency run_throughput) run_order =
     (if run_http then block HTTP run_latency run_throughput else [])
     @ (if run_grpc then block GRPC run_latency run_throughput else [])
     @ (if run_handle then block HANDLE run_latency run_throughput else [])"
  by (simp add: run_order_def block_def)

lemma async_main_extends:
  assumes "async_main e path run_http run_grpc run_handle run_latency run_throughput = Inr out"
  shows "\<exists>s. extends e
           (filter (selected run_http run_grpc run_handle run_latency run_throughput) run_order)
           \<lparr>perf_metrics = [], runs = []\<rparr> s
         \<and> out = \<lparr>results = [(''perf_metrics'', perf_metrics s)],
                  output_path = path, benchmarks_run = runs s\<rparr>"
proof -
  let ?s0 = "\<lparr>perf_metrics = [], runs = []\<rparr>"
  from assms obtain s1 s2 s3 where
    1: "(if run_http then http_benchmarks e run_latency run_throughput ?s0 else Inr ?s0) = Inr s1"
    and 2: "(if run_grpc then grpc_benchmarks e run_latency run_throughput s1 else Inr s1) = Inr s2"
    and 3: "(if run_handle then handle_benchmarks e run_latency run_throughput s2 else Inr s2) = Inr s3"
    and out: "out = \<lparr>results = [(''perf_metrics'', perf_metrics s3)],
                  output_path = path, benchmarks_run = runs s3\<rparr>"
    unfolding async_main_def and_then_Inr by auto
  have "extends e (if run_http then block HTTP run_latency run_throughput else []) ?s0 s1"
    using 1 by (cases run_http) (simp_all add: http_benchmarks_extends extends_refl)
  moreover have "extends e (if run_grpc then block GRPC run_latency run_throughput else []) s1 s2"
    using 2 by (cases run_grpc) (simp_all add: grpc_benchmarks_extends extends_refl)
  moreover have "extends e (if run_handle then block HANDLE run_latency run_throughput else []) s2 s3"
    using 3 by (cases run_handle) (simp_all add: handle_benchmarks_extends extends_refl)
  ultimately have "extends e
      (filter (selected run_http run_grpc run_handle run_latency run_throughput) run_order) ?s0 s3"
    unfolding selected_run_order by (blast intro: extends_trans)
  with out show ?thesis by blast
qed

lemma and_then_returns:
  "(\<exists>y. and_then m f = Inr y) \<longleftrightarrow> (\<exists>x. m = Inr x \<and> (\<exists>y. f x = Inr y))"
  by (auto simp: and_then_Inr)

lemma latency_step_returns:
  "(\<exists>s'. latency_step e (Latency t p) name s = Inr s') \<longleftrightarrow> returns e (Latency t p)"
proof
  assume "\<exists>s'. latency_step e (Latency t p) name s = Inr s'"
  then show "returns e (Latency t p)"
    by (auto simp: latency_step_def and_then_Inr returns_def)
next
  assume "returns e (Latency t p)"
  then obtain latencies where "run_latency_benchmark e (Latency t p) NUM_REQUESTS = Inr latencies"
    by (auto simp: returns_def split: sum.splits)
  moreover obtain records where
    "convert_latencies_to_perf_metrics name latencies = Inr (records, latencies)"
    using convert_latencies_returns by blast
  ultimately show "\<exists>s'. latency_step e (Latency t p) name s = Inr s'"
    by (simp add: latency_step_def and_then_def)
qed

lemma throughput_step_returns:
  "(\<exists>s'. throughput_step e (Throughput t m) name s = Inr s') \<longleftrightarrow> returns e (Throughput t m)"
  by (auto simp: throughput_step_def and_then_def returns_def split: sum.splits)

lemma http_benchmarks_returns:
  "(\<exists>s'. http_benchmarks e run_latency run_throughput s = Inr s') \<longleftrightarrow>
     (\<forall>b\<in>set (block HTTP run_latency run_throughput). returns e b)"
  by (auto simp: http_benchmarks_def block_def and_then_returns
      latency_step_returns throughput_step_returns)

lemma grpc_benchmarks_returns:
  "(\<exists>s'. grpc_benchmarks e run_latency run_throughput s = Inr s') \<longleftrightarrow>
     (\<forall>b\<in>set (block GRPC run_latency run_throughput). returns e b)"
  by (auto simp: grpc_benchmarks_def block_def and_then_returns
      latency_step_returns throughput_step_returns)

lemma handle_benchmarks_returns:
  "(\<exists>s'. handle_benchmarks e run_latency run_throughput s = Inr s') \<longleftrightarrow>
     (\<forall>b\<in>set (block HANDLE run_latency run_throughput). returns e b)"
  by (auto simp: handle_benchmarks_def block_def and_then_returns
      latency_step_returns throughput_step_returns)

lemma async_main_returns:
  "(\<exists>out. async_main e path run_http run_grpc run_handle run_latency run_throughput = Inr out)
   \<longleftrightarrow> (\<forall>b\<in>set (filter (selected run_http run_grpc run_handle run_latency run_throughput)
                     run_order). returns e b)"
  unfolding selected_run_order
  by (auto simp: async_main_def and_then_returns http_benchmarks_returns
      grpc_benchmarks_returns handle_benchmarks_returns)

text \<open>
  C6. The reported list follows the run order. When the samplers of the selected
  benchmarks return, \<^verbatim>\<open>_main\<close> returns, the benchmarks it ran are the selected
  ones in program order (HTTP before gRPC before the handle; for each transport the
  latency benchmarks before the throughput benchmarks; among the latency benchmarks no
  payload, then 1 MB, then 10 MB), and the saved \<^verbatim>\<open>perf_metrics\<close> list is the
  concatenation of the record lists of these benchmarks in the order they ran, with no
  reordering. \<^verbatim>\<open>_main\<close> returns in no other case, and whenever it returns the
  saved list is this one.
\<close>

theorem perf_metrics_follow_run_order:
  "((\<forall>b\<in>set (filter (selected run_http run_grpc run_handle run_latency run_throughput)
                  run_order). returns e b)
      \<longrightarrow> async_main e path run_http run_grpc run_handle run_latency run_throughput =
            Inr \<lparr>results =
                   [(''perf_metrics'',
                     concat (map (report e)
                       (filter (selected run_http run_grpc run_handle run_latency run_throughput)
                          run_order)))],
                 output_path = path,
                 benchmarks_run =
                   filter (selected run_http run_grpc run_handle run_latency run_throughput)
                     run_order\<rparr>)
   \<and> (\<forall>out. async_main e path run_http run_grpc run_handle run_latency run_throughput = Inr out
         \<longrightarrow> (\<forall>b\<in>set (filter (selected run_http run_grpc run_handle run_latency run_throughput)
                          run_order). returns e b)
           \<and> benchmarks_run out =
               filter (selected run_http run_grpc run_handle run_latency run_throughput) run_order
           \<and> results out =
               [(''perf_metrics'', concat (map (report e) (benchmarks_run out)))])"
proof (intro conjI allI impI)
  let ?sel = "filter (selected run_http run_grpc run_handle run_latency run_throughput) run_order"
  assume "\<forall>b\<in>set ?sel. returns e b"
  then obtain out where
    out: "async_main e path run_http run_grpc run_handle run_latency run_throughput = Inr out"
    using async_main_returns by blast
  from async_main_extends[OF out]
  have "out = \<lparr>results = [(''perf_metrics'', concat (map (report e) ?sel))],
               output_path = path, benchmarks_run = ?sel\<rparr>"
    by (auto simp: extends_def)
  with out show "async_main e path run_http run_grpc run_handle run_latency run_throughput =
      Inr \<lparr>results = [(''perf_metrics'', concat (map (report e) ?sel))],
           output_path = path, benchmarks_run = ?sel\<rparr>"
    by simp
next
  fix out
  assume out: "async_main e path run_http run_grpc run_handle run_latency run_throughput = Inr out"
  then show "\<forall>b\<in>set (filter (selected run_http run_grpc run_handle run_latency run_throughput)
      run_order). returns e b"
    using async_main_returns by blast
  from async_main_extends[OF out]
  show "benchmarks_run out =
      filter (selected run_http run_grpc run_handle run_latency run_throughput) run_order"
    by (auto simp: extends_def)
  from async_main_extends[OF out]
  show "results out = [(''perf_metrics'', concat (map (report e) (benchmarks_run out)))]"
    by (auto simp: extends_def)
qed

text \<open>
  A run of all fifteen benchmarks. The single sample of each latency benchmark and the
  mean of each throughput benchmark tell the benchmarks apart in the saved list.
\<close>

theorem perf_metrics_follow_run_order_witness:
  "map_sum id
     (\<lambda>out. (benchmarks_run out,
             map (\<lambda>r. (map_of r ''perf_metric_name'', map_of r ''perf_metric_value'',
                        map_of r ''perf_metric_type''))
               (concat (map snd (results out)))))
     (async_main
        \<lparr>run_latency_benchmark = (\<lambda>b n.
           if b = Latency HTTP None then Inr [11]
           else if b = Latency HTTP (Some 1000000) then Inr [12]
           else if b = Latency HTTP (Some 10000000) then Inr [13]
           else if b = Latency GRPC None then Inr [21]
           else if b = Latency GRPC (Some 1000000) then Inr [22]
           else if b = Latency GRPC (Some 10000000) then Inr [23]
           else if b = Latency HANDLE None then Inr [31]
           else if b = Latency HANDLE (Some 1000000) then Inr [32]
           else if b = Latency HANDLE (Some 10000000) then Inr [33]
           else Inl RequestFailed),
         run_throughput_benchmark = (\<lambda>b s n t.
           if b = Throughput HTTP None then Inr (Finite 14, Finite 1)
           else if b = Throughput HTTP (Some 100) then Inr (Finite 15, Finite 2)
           else if b = Throughput GRPC None then Inr (Finite 24, Finite 3)
           else if b = Throughput GRPC (Some 100) then Inr (Finite 25, Finite 4)
           else if b = Throughput HANDLE None then Inr (Finite 34, Finite 5)
           else if b = Throughput HANDLE (Some 100) then Inr (Finite 35, Finite 6)
           else Inl RequestFailed)\<rparr>
        None True True True True True) =
   Inr ([ Latency HTTP None, Latency HTTP (Some 1000000), Latency HTTP (Some 10000000),
          Throughput HTTP None, Throughput HTTP (Some 100),
          Latency GRPC None, Latency GRPC (Some 1000000), Latency GRPC (Some 10000000),
          Throughput GRPC None, Throughput GRPC (Some 100),
          Latency HANDLE None, Latency HANDLE (Some 1000000), Latency HANDLE (Some 10000000),
          Throughput HANDLE None, Throughput HANDLE (Some 100) ],
        [ (Some (Str ''http_p50_latency''), Some (Float (Finite 11)), Some (Str ''LATENCY'')),
          (Some (Str ''http_p90_latency''), Some (Float (Finite 11)), Some (Str ''LATENCY'')),
          (Some (Str ''http_p95_latency''), Some (Float (Finite 11)), Some (Str ''LATENCY'')),
          (Some (Str ''http_p99_latency''), Some (Float (Finite 11)), Some (Str ''LATENCY'')),
          (Some (Str ''http_1mb_p50_latency''), Some (Float (Finite 12)), Some (Str ''LATENCY'')),
          (Some (Str ''http_1mb_p90_latency''), Some (Float (Finite 12)), Some (Str ''LATENCY'')),
          (Some (Str ''http_1mb_p95_latency''), Some (Float (Finite 12)), Some (Str ''LATENCY'')),
          (Some (Str ''http_1mb_p99_latency''), Some (Float (Finite 12)), Some (Str ''LATENCY'')),
          (Some (Str ''http_10mb_p50_latency''), Some (Float (Finite 13)), Some (Str ''LATENCY'')),
          (Some (Str ''http_10mb_p90_latency''), Some (Float (Finite 13)), Some (Str ''LATENCY'')),
          (Some (Str ''http_10mb_p95_latency''), Some (Float (Finite 13)), Some (Str ''LATENCY'')),
          (Some (Str ''http_10mb_p99_latency''), Some (Float (Finite 13)), Some (Str ''LATENCY'')),
          (Some (Str ''http_avg_rps''), Some (Float (Finite 14)), Some (Str ''THROUGHPUT'')),
          (Some (Str ''http_throughput_std''), Some (Float (Finite 1)), Some (Str ''THROUGHPUT'')),
          (Some (Str ''http_100_max_ongoing_requests_avg_rps''), Some (Float (Finite 15)),
           Some (Str ''THROUGHPUT'')),
          (Some (Str ''http_100_max_ongoing_requests_throughput_std''), Some (Float (Finite 2)),
           Some (Str ''THROUGHPUT'')),
          (Some (Str ''grpc_p50_latency''), Some (Float (Finite 21)), Some (Str ''LATENCY'')),
          (Some (Str ''grpc_p90_latency''), Some (Float (Finite 21)), Some (Str ''LATENCY'')),
          (Some (Str ''grpc_p95_latency''), Some (Float (Finite 21)), Some (Str ''LATENCY'')),
          (Some (Str ''grpc_p99_latency''), Some (Float (Finite 21)), Some (Str ''LATENCY'')),
          (Some (Str ''grpc_1mb_p50_latency''), Some (Float (Finite 22)), Some (Str ''LATENCY'')),
          (Some (Str ''grpc_1mb_p90_latency''), Some (Float (Finite 22)), Some (Str ''LATENCY'')),
          (Some (Str ''grpc_1mb_p95_latency''), Some (Float (Finite 22)), Some (Str ''LATENCY'')),
          (Some (Str ''grpc_1mb_p99_latency''), Some (Float (Finite 22)), Some (Str ''LATENCY'')),
          (Some (Str ''grpc_10mb_p50_latency''), Some (Float (Finite 23)), Some (Str ''LATENCY'')),
          (Some (Str ''grpc_10mb_p90_latency''), Some (Float (Finite 23)), Some (Str ''LATENCY'')),
          (Some (Str ''grpc_10mb_p95_latency''), Some (Float (Finite 23)), Some (Str ''LATENCY'')),
          (Some (Str ''grpc_10mb_p99_latency''), Some (Float (Finite 23)), Some (Str ''LATENCY'')),
          (Some (Str ''grpc_avg_rps''), Some (Float (Finite 24)), Some (Str ''THROUGHPUT'')),
          (Some (Str ''grpc_throughput_std''), Some (Float (Finite 3)), Some (Str ''THROUGHPUT'')),
          (Some (Str ''grpc_100_max_ongoing_requests_avg_rps''), Some (Float (Finite 25)),
           Some (Str ''THROUGHPUT'')),
          (Some (Str ''grpc_100_max_ongoing_requests_throughput_std''), Some (Float (Finite 4)),
           Some (Str ''THROUGHPUT'')),
          (Some (Str ''handle_p50_latency''), Some (Float (Finite 31)), Some (Str ''LATENCY'')),
          (Some (Str ''handle_p90_latency''), Some (Float (Finite 31)), Some (Str ''LATENCY'')),
          (Some (Str ''handle_p95_latency''), Some (Float (Finite 31)), Some (Str ''LATENCY'')),
          (Some (Str ''handle_p99_latency''), Some (Float (Finite 31)), Some (Str ''LATENCY'')),
          (Some (Str ''handle_1mb_p50_latency''), Some (Float (Finite 32)), Some (Str ''LATENCY'')),
          (Some (Str ''handle_1mb_p90_latency''), Some (Float (Finite 32)), Some (Str ''LATENCY'')),
          (Some (Str ''handle_1mb_p95_latency''), Some (Float (Finite 32)), Some (Str ''LATENCY'')),
          (Some (Str ''handle_1mb_p99_latency''), Some (Float (Finite 32)), Some (Str ''LATENCY'')),
          (Some (Str ''handle_10mb_p50_latency''), Some (Float (Finite 33)), Some (Str ''LATENCY'')),
          (Some (Str ''handle_10mb_p90_latency''), Some (Float (Finite 33)), Some (Str ''LATENCY'')),
          (Some (Str ''handle_10mb_p95_latency''), Some (Float (Finite 33)), Some (Str ''LATENCY'')),
          (Some (Str ''handle_10mb_p99_latency''), Some (Float (Finite 33)), Some (Str ''LATENCY'')),
          (Some (Str ''handle_avg_rps''), Some (Float (Finite 34)), Some (Str ''THROUGHPUT'')),
          (Some (Str ''handle_throughput_std''), Some (Float (Finite 5)), Some (Str ''THROUGHPUT'')),
          (Some (Str ''handle_100_max_ongoing_requests_avg_rps''), Some (Float (Finite 35)),
           Some (Str ''THROUGHPUT'')),
          (Some (Str ''handle_100_max_ongoing_requests_throughput_std''), Some (Float (Finite 6)),
           Some (Str ''THROUGHPUT'')) ])"
proof -
  let ?e = "\<lparr>run_latency_benchmark = (\<lambda>b n.
           if b = Latency HTTP None then Inr [11]
           else if b = Latency HTTP (Some 1000000) then Inr [12]
           else if b = Latency HTTP (Some 10000000) then Inr [13]
           else if b = Latency GRPC None then Inr [21]
           else if b = Latency GRPC (Some 1000000) then Inr [22]
           else if b = Latency GRPC (Some 10000000) then Inr [23]
           else if b = Latency HANDLE None then Inr [31]
           else if b = Latency HANDLE (Some 1000000) then Inr [32]
           else if b = Latency HANDLE (Some 10000000) then Inr [33]
           else Inl RequestFailed),
         run_throughput_benchmark = (\<lambda>b s n t.
           if b = Throughput HTTP None then Inr (Finite 14, Finite 1)
           else if b = Throughput HTTP (Some 100) then Inr (Finite 15, Finite 2)
           else if b = Throughput GRPC None then Inr (Finite 24, Finite 3)
           else if b = Throughput GRPC (Some 100) then Inr (Finite 25, Finite 4)
           else if b = Throughput HANDLE None then Inr (Finite 34, Finite 5)
           else if b = Throughput HANDLE (Some 100) then Inr (Finite 35, Finite 6)
           else Inl RequestFailed)\<rparr>"
  have all: "\<forall>b\<in>set (filter (selected True True True True True) run_order). returns ?e b"
    by (simp add: run_order_def returns_def)
  from perf_metrics_follow_run_order[of True True True True True ?e None] all
  have "async_main ?e None True True True True True =
      Inr \<lparr>results = [(''perf_metrics'',
                concat (map (report ?e) (filter (selected True True True True True) run_order)))],
           output_path = None,
           benchmarks_run = filter (selected True True True True True) run_order\<rparr>"
    by blast
  then show ?thesis
    by (simp add: run_order_def report_def convert_latencies_to_perf_metrics_def
        convert_throughput_to_perf_metrics_def and_then_def quantile_def interpolate_def)
qed

subsection \<open>The shape and the origin of the records\<close>

lemma convert_throughput_shape:
  "r \<in> set (convert_throughput_to_perf_metrics name mean std) \<Longrightarrow> perf_metric_record r"
  by (auto simp: convert_throughput_to_perf_metrics_def perf_metric_record_def)

lemma convert_latencies_shape:
  assumes "convert_latencies_to_perf_metrics name latencies = Inr (records, l)"
    and "r \<in> set records"
  shows "perf_metric_record r"
proof (cases "latencies = []")
  case True
  with assms show ?thesis
    by (auto simp: convert_latencies_empty perf_metric_record_def)
next
  case False
  with assms show ?thesis
    by (auto simp: convert_latencies_nonempty perf_metric_record_def)
qed

lemma report_origin:
  assumes "r \<in> set (report e b)"
  shows "(\<exists>latencies records l.
            run_latency_benchmark e b NUM_REQUESTS = Inr latencies
          \<and> convert_latencies_to_perf_metrics (metric_prefix b) latencies = Inr (records, l)
          \<and> r \<in> set records)
       \<or> (\<exists>mean std.
            run_throughput_benchmark e b BATCH_SIZE NUM_TRIALS TRIAL_RUNTIME_S = Inr (mean, std)
          \<and> r \<in> set (convert_throughput_to_perf_metrics (metric_prefix b) mean std))"
proof (cases b)
  case (Latency t p)
  show ?thesis
  proof (cases "run_latency_benchmark e b NUM_REQUESTS")
    case (Inl err)
    with assms Latency show ?thesis by (simp add: report_def)
  next
    case sampled: (Inr latencies)
    show ?thesis
    proof (cases "convert_latencies_to_perf_metrics (metric_prefix b) latencies")
      case (Inl err)
      with assms Latency sampled show ?thesis by (simp add: report_def)
    next
      case (Inr converted)
      obtain records l where c: "converted = (records, l)" by (cases converted)
      with assms Latency sampled Inr have "r \<in> set records"
        by (simp add: report_def)
      with sampled Inr c show ?thesis by blast
    qed
  qed
next
  case (Throughput t m)
  show ?thesis
  proof (cases "run_throughput_benchmark e b BATCH_SIZE NUM_TRIALS TRIAL_RUNTIME_S")
    case (Inl err)
    with assms Throughput show ?thesis by (simp add: report_def)
  next
    case (Inr measured)
    obtain mean std where m: "measured = (mean, std)" by (cases measured)
    with assms Throughput Inr
    have "r \<in> set (convert_throughput_to_perf_metrics (metric_prefix b) mean std)"
      by (simp add: report_def)
    with Inr m show ?thesis by blast
  qed
qed

text \<open>
  C5. Every performance metric record the program produces has exactly three fields: a
  string name, a float value and a type that is LATENCY or THROUGHPUT. This holds of
  every record of the throughput reporter and of the latency reporter. Every record in
  the list that \<^verbatim>\<open>_main\<close> saves has this shape and comes from a benchmark that
  ran: it is one of the records a reporter returned for the result the sampler of that
  benchmark gave, under the name prefix of that benchmark. The driver builds no record
  itself.
\<close>

theorem perf_metric_records_from_reporters:
  "(\<forall>r\<in>set (convert_throughput_to_perf_metrics name mean std). perf_metric_record r)
   \<and> (\<forall>records l. convert_latencies_to_perf_metrics name latencies = Inr (records, l)
         \<longrightarrow> (\<forall>r\<in>set records. perf_metric_record r))
   \<and> (\<forall>out. async_main e path run_http run_grpc run_handle run_latency run_throughput = Inr out
         \<longrightarrow> (\<forall>r\<in>set (concat (map snd (results out))).
                 perf_metric_record r
               \<and> (\<exists>b\<in>set (benchmarks_run out).
                     r \<in> set (report e b)
                   \<and> ((\<exists>latencies records l.
                          run_latency_benchmark e b NUM_REQUESTS = Inr latencies
                        \<and> convert_latencies_to_perf_metrics (metric_prefix b) latencies =
                            Inr (records, l)
                        \<and> r \<in> set records)
                      \<or> (\<exists>mean std.
                          run_throughput_benchmark e b BATCH_SIZE NUM_TRIALS TRIAL_RUNTIME_S =
                            Inr (mean, std)
                        \<and> r \<in> set (convert_throughput_to_perf_metrics (metric_prefix b)
                                      mean std))))))"
proof (intro conjI allI impI ballI)
  fix r assume "r \<in> set (convert_throughput_to_perf_metrics name mean std)"
  then show "perf_metric_record r" by (rule convert_throughput_shape)
next
  fix records l r
  assume "convert_latencies_to_perf_metrics name latencies = Inr (records, l)" "r \<in> set records"
  then show "perf_metric_record r" by (rule convert_latencies_shape)
next
  fix out r
  assume out: "async_main e path run_http run_grpc run_handle run_latency run_throughput = Inr out"
    and r: "r \<in> set (concat (map snd (results out)))"
  from async_main_extends[OF out] r obtain b where
    b: "b \<in> set (benchmarks_run out)" "r \<in> set (report e b)"
    by (auto simp: extends_def)
  note origin = report_origin[OF b(2)]
  from origin show "perf_metric_record r"
    by (auto intro: convert_latencies_shape convert_throughput_shape)
  from b origin show "\<exists>b\<in>set (benchmarks_run out).
      r \<in> set (report e b)
    \<and> ((\<exists>latencies records l.
           run_latency_benchmark e b NUM_REQUESTS = Inr latencies
         \<and> convert_latencies_to_perf_metrics (metric_prefix b) latencies = Inr (records, l)
         \<and> r \<in> set records)
       \<or> (\<exists>mean std.
           run_throughput_benchmark e b BATCH_SIZE NUM_TRIALS TRIAL_RUNTIME_S = Inr (mean, std)
         \<and> r \<in> set (convert_throughput_to_perf_metrics (metric_prefix b) mean std)))"
    by blast
qed

text \<open>A run of the handle latency benchmarks on the samples 3, 1, 2.\<close>

theorem perf_metric_records_from_reporters_witness:
  "async_main
     \<lparr>run_latency_benchmark = (\<lambda>b n. Inr [3, 1, 2]),
      run_throughput_benchmark = (\<lambda>b s n t. Inl RequestFailed)\<rparr>
     None False False True True False =
   Inr \<lparr>results = [(''perf_metrics'',
          [ [ (''perf_metric_name'', Str ''handle_p50_latency''),
              (''perf_metric_value'', Float (Finite 2)),
              (''perf_metric_type'', Str ''LATENCY'') ],
            [ (''perf_metric_name'', Str ''handle_p90_latency''),
              (''perf_metric_value'', Float (Finite 2.8)),
              (''perf_metric_type'', Str ''LATENCY'') ],
            [ (''perf_metric_name'', Str ''handle_p95_latency''),
              (''perf_metric_value'', Float (Finite 2.9)),
              (''perf_metric_type'', Str ''LATENCY'') ],
            [ (''perf_metric_name'', Str ''handle_p99_latency''),
              (''perf_metric_value'', Float (Finite 2.98)),
              (''perf_metric_type'', Str ''LATENCY'') ],
            [ (''perf_metric_name'', Str ''handle_1mb_p50_latency''),
              (''perf_metric_value'', Float (Finite 2)),
              (''perf_metric_type'', Str ''LATENCY'') ],
            [ (''perf_metric_name'', Str ''handle_1mb_p90_latency''),
              (''perf_metric_value'', Float (Finite 2.8)),
              (''perf_metric_type'', Str ''LATENCY'') ],
            [ (''perf_metric_name'', Str ''handle_1mb_p95_latency''),
              (''perf_metric_value'', Float (Finite 2.9)),
              (''perf_metric_type'', Str ''LATENCY'') ],
            [ (''perf_metric_name'', Str ''handle_1mb_p99_latency''),
              (''perf_metric_value'', Float (Finite 2.98)),
              (''perf_metric_type'', Str ''LATENCY'') ],
            [ (''perf_metric_name'', Str ''handle_10mb_p50_latency''),
              (''perf_metric_value'', Float (Finite 2)),
              (''perf_metric_type'', Str ''LATENCY'') ],
            [ (''perf_metric_name'', Str ''handle_10mb_p90_latency''),
              (''perf_metric_value'', Float (Finite 2.8)),
              (''perf_metric_type'', Str ''LATENCY'') ],
            [ (''perf_metric_name'', Str ''handle_10mb_p95_latency''),
              (''perf_metric_value'', Float (Finite 2.9)),
              (''perf_metric_type'', Str ''LATENCY'') ],
            [ (''perf_metric_name'', Str ''handle_10mb_p99_latency''),
              (''perf_metric_value'', Float (Finite 2.98)),
              (''perf_metric_type'', Str ''LATENCY'') ] ])],
        output_path = None,
        benchmarks_run = [ Latency HANDLE None, Latency HANDLE (Some 1000000),
                           Latency HANDLE (Some 10000000) ]\<rparr>
   \<and> perf_metric_record
       [ (''perf_metric_name'', Str ''handle_1mb_p90_latency''),
         (''perf_metric_value'', Float (Finite 2.8)),
         (''perf_metric_type'', Str ''LATENCY'') ]
   \<and> (\<exists>b\<in>set [ Latency HANDLE None, Latency HANDLE (Some 1000000),
                  Latency HANDLE (Some 10000000) ].
         [ (''perf_metric_name'', Str ''handle_1mb_p90_latency''),
           (''perf_metric_value'', Float (Finite 2.8)),
           (''perf_metric_type'', Str ''LATENCY'') ]
         \<in> set (report \<lparr>run_latency_benchmark = (\<lambda>b n. Inr [3, 1, 2]),
                          run_throughput_benchmark = (\<lambda>b s n t. Inl RequestFailed)\<rparr> b))
   \<and> perf_metric_record
       [ (''perf_metric_name'', Str ''http_avg_rps''),
         (''perf_metric_value'', Float (Finite 120)),
         (''perf_metric_type'', Str ''THROUGHPUT'') ]"
proof -
  let ?e = "\<lparr>run_latency_benchmark = (\<lambda>b n. Inr [3, 1, 2]),
      run_throughput_benchmark = (\<lambda>b s n t. Inl RequestFailed)\<rparr>"
  let ?r = "[ (''perf_metric_name'', Str ''handle_1mb_p90_latency''),
         (''perf_metric_value'', Float (Finite 2.8)),
         (''perf_metric_type'', Str ''LATENCY'') ]"
  let ?out = "\<lparr>results = [(''perf_metrics'',
          [ [ (''perf_metric_name'', Str ''handle_p50_latency''),
              (''perf_metric_value'', Float (Finite 2)),
              (''perf_metric_type'', Str ''LATENCY'') ],
            [ (''perf_metric_name'', Str ''handle_p90_latency''),
              (''perf_metric_value'', Float (Finite 2.8)),
              (''perf_metric_type'', Str ''LATENCY'') ],
            [ (''perf_metric_name'', Str ''handle_p95_latency''),
              (''perf_metric_value'', Float (Finite 2.9)),
              (''perf_metric_type'', Str ''LATENCY'') ],
            [ (''perf_metric_name'', Str ''handle_p99_latency''),
              (''perf_metric_value'', Float (Finite 2.98)),
              (''perf_metric_type'', Str ''LATENCY'') ],
            [ (''perf_metric_name'', Str ''handle_1mb_p50_latency''),
              (''perf_metric_value'', Float (Finite 2)),
              (''perf_metric_type'', Str ''LATENCY'') ],
            [ (''perf_metric_name'', Str ''handle_1mb_p90_latency''),
              (''perf_metric_value'', Float (Finite 2.8)),
              (''perf_metric_type'', Str ''LATENCY'') ],
            [ (''perf_metric_name'', Str ''handle_1mb_p95_latency''),
              (''perf_metric_value'', Float (Finite 2.9)),
              (''perf_metric_type'', Str ''LATENCY'') ],
            [ (''perf_metric_name'', Str ''handle_1mb_p99_latency''),
              (''perf_metric_value'', Float (Finite 2.98)),
              (''perf_metric_type'', Str ''LATENCY'') ],
            [ (''perf_metric_name'', Str ''handle_10mb_p50_latency''),
              (''perf_metric_value'', Float (Finite 2)),
              (''perf_metric_type'', Str ''LATENCY'') ],
            [ (''perf_metric_name'', Str ''handle_10mb_p90_latency''),
              (''perf_metric_value'', Float (Finite 2.8)),
              (''perf_metric_type'', Str ''LATENCY'') ],
            [ (''perf_metric_name'', Str ''handle_10mb_p95_latency''),
              (''perf_metric_value'', Float (Finite 2.9)),
              (''perf_metric_type'', Str ''LATENCY'') ],
            [ (''perf_metric_name'', Str ''handle_10mb_p99_latency''),
              (''perf_metric_value'', Float (Finite 2.98)),
              (''perf_metric_type'', Str ''LATENCY'') ] ])],
        output_path = None,
        benchmarks_run = [ Latency HANDLE None, Latency HANDLE (Some 1000000),
                           Latency HANDLE (Some 10000000) ]\<rparr>"
  have run: "async_main ?e None False False True True False = Inr ?out"
    by (simp add: async_main_def handle_benchmarks_def latency_step_def and_then_def
        convert_latencies_to_perf_metrics_def quantile_def interpolate_def)
  note all = perf_metric_records_from_reporters[of "''http''" "Finite 120" "Finite 5" "[]"
      ?e None False False True True False]
  have mem: "?r \<in> set (concat (map snd (results ?out)))" by simp
  from all run have "\<forall>r\<in>set (concat (map snd (results ?out))).
      perf_metric_record r \<and> (\<exists>b\<in>set (benchmarks_run ?out). r \<in> set (report ?e b))"
    by blast
  from bspec[OF this mem]
  have 1: "perf_metric_record ?r"
    and 2: "\<exists>b\<in>set [ Latency HANDLE None, Latency HANDLE (Some 1000000),
                  Latency HANDLE (Some 10000000) ]. ?r \<in> set (report ?e b)"
    by simp_all
  from all have "\<forall>r\<in>set (convert_throughput_to_perf_metrics ''http'' (Finite 120) (Finite 5)).
      perf_metric_record r"
    by blast
  then have 3: "perf_metric_record
       [ (''perf_metric_name'', Str ''http_avg_rps''),
         (''perf_metric_value'', Float (Finite 120)),
         (''perf_metric_type'', Str ''THROUGHPUT'') ]"
    by (simp add: convert_throughput_to_perf_metrics_def)
  from run 1 2 3 show ?thesis by blast
qed

subsection \<open>The flags of the command\<close>

lemma async_main_no_transport:
  "async_main e path False False False run_latency run_throughput =
     Inr \<lparr>results = [(''perf_metrics'', [])], output_path = path, benchmarks_run = []\<rparr>"
  by (simp add: async_main_def and_then_def)

lemma main_no_flag:
  "main e path run_all False False False False False =
     async_main e path True True True True True"
  by (simp add: main_def)

text \<open>
  C9, as stated, fails when \<^verbatim>\<open>--run-all\<close> is given: with \<^verbatim>\<open>--run-all\<close> and
  \<^verbatim>\<open>--run-latency\<close> one of the five selection flags is set and no transport flag
  is, yet all fifteen benchmarks run.
\<close>

theorem run_all_with_run_latency_counterexample:
  "map_sum id benchmarks_run
     (main \<lparr>run_latency_benchmark = (\<lambda>b n. Inr [1]),
            run_throughput_benchmark = (\<lambda>b s n t. Inr (Finite 100, Finite 0))\<rparr>
        None True False False False True False) =
   Inr [ Latency HTTP None, Latency HTTP (Some 1000000), Latency HTTP (Some 10000000),
         Throughput HTTP None, Throughput HTTP (Some 100),
         Latency GRPC None, Latency GRPC (Some 1000000), Latency GRPC (Some 10000000),
         Throughput GRPC None, Throughput GRPC (Some 100),
         Latency HANDLE None, Latency HANDLE (Some 1000000), Latency HANDLE (Some 10000000),
         Throughput HANDLE None, Throughput HANDLE (Some 100) ]"
  by (simp add: main_def async_main_def http_benchmarks_def grpc_benchmarks_def
      handle_benchmarks_def latency_step_def throughput_step_def and_then_def
      convert_latencies_to_perf_metrics_def quantile_def interpolate_def)

text \<open>
  C9, amended. If \<^verbatim>\<open>--run-all\<close> is not given and at least one of the five
  selection flags is set but no transport flag is among them, the run-all default is
  not triggered, no benchmark runs, and the program saves a result whose
  \<^verbatim>\<open>perf_metrics\<close> list is empty, whatever the samplers would do. When none of
  the five flags is set, the program runs as with all five set: all transports and both
  kinds, and a run that returns has run all fifteen benchmarks in program order.
\<close>

theorem main_without_transport_flag:
  "(\<not> run_all \<and> \<not> run_http \<and> \<not> run_grpc \<and> \<not> run_handle \<and> (run_latency \<or> run_throughput)
      \<longrightarrow> main e path run_all run_http run_grpc run_handle run_latency run_throughput =
            Inr \<lparr>results = [(''perf_metrics'', [])], output_path = path, benchmarks_run = []\<rparr>)
   \<and> main e path run_all False False False False False =
       async_main e path True True True True True
   \<and> (\<forall>out. main e path run_all False False False False False = Inr out
         \<longrightarrow> benchmarks_run out = run_order)"
proof (intro conjI allI impI)
  assume "\<not> run_all \<and> \<not> run_http \<and> \<not> run_grpc \<and> \<not> run_handle \<and> (run_latency \<or> run_throughput)"
  then show "main e path run_all run_http run_grpc run_handle run_latency run_throughput =
            Inr \<lparr>results = [(''perf_metrics'', [])], output_path = path, benchmarks_run = []\<rparr>"
    by (auto simp: main_def async_main_no_transport)
next
  show "main e path run_all False False False False False =
       async_main e path True True True True True"
    by (rule main_no_flag)
next
  fix out
  assume "main e path run_all False False False False False = Inr out"
  then have "async_main e path True True True True True = Inr out"
    by (simp add: main_no_flag)
  from async_main_extends[OF this] show "benchmarks_run out = run_order"
    by (auto simp: extends_def run_order_def)
qed

text \<open>The command line \<^verbatim>\<open>-o out.json --run-latency\<close>, with samplers that would fail.\<close>

theorem main_without_transport_flag_witness:
  "main \<lparr>run_latency_benchmark = (\<lambda>b n. Inl RequestFailed),
         run_throughput_benchmark = (\<lambda>b s n t. Inl RequestFailed)\<rparr>
        (Some ''out.json'') False False False False True False =
     Inr \<lparr>results = [(''perf_metrics'', [])], output_path = Some ''out.json'',
          benchmarks_run = []\<rparr>"
  using main_without_transport_flag[of False False False False True False
      "\<lparr>run_latency_benchmark = (\<lambda>b n. Inl RequestFailed),
         run_throughput_benchmark = (\<lambda>b s n t. Inl RequestFailed)\<rparr>" "Some ''out.json''"]
  by simp

end
